theory Spec2Isabelle
  imports Complex_Main "HOL-Library.Sublist"
begin

section \<open>JavaScript numbers\<close>

text \<open>
  A JavaScript number is modelled as an exact real number or one of the three non-finite
  values. The arithmetic below follows the language's rules for the non-finite values and
  for division by zero. Two things are outside this model: the rounding of binary
  floating point (finite results are exact here), and the sign of zero (the model has one
  zero, and dividing a non-zero number by it gives the infinity of the dividend's sign).
  The comparisons are the language's: every comparison with NaN is false.
\<close>

datatype jsnum = Fin real | PInf | NInf | NaN

instantiation jsnum :: "{zero,one,plus,minus,uminus,times,inverse,abs,ord,power}"
begin

definition zero_jsnum :: jsnum where "zero_jsnum = Fin 0"

definition one_jsnum :: jsnum where "one_jsnum = Fin 1"

fun uminus_jsnum :: "jsnum \<Rightarrow> jsnum" where
  "uminus_jsnum (Fin a) = Fin (- a)"
| "uminus_jsnum PInf = NInf"
| "uminus_jsnum NInf = PInf"
| "uminus_jsnum NaN = NaN"

fun plus_jsnum :: "jsnum \<Rightarrow> jsnum \<Rightarrow> jsnum" where
  "plus_jsnum NaN y = NaN"
| "plus_jsnum x NaN = NaN"
| "plus_jsnum (Fin a) (Fin b) = Fin (a + b)"
| "plus_jsnum PInf NInf = NaN"
| "plus_jsnum NInf PInf = NaN"
| "plus_jsnum PInf y = PInf"
| "plus_jsnum NInf y = NInf"
| "plus_jsnum (Fin a) y = y"

definition minus_jsnum :: "jsnum \<Rightarrow> jsnum \<Rightarrow> jsnum" where
  "minus_jsnum x y = x + (- y)"

fun times_jsnum :: "jsnum \<Rightarrow> jsnum \<Rightarrow> jsnum" where
  "times_jsnum NaN y = NaN"
| "times_jsnum x NaN = NaN"
| "times_jsnum (Fin a) (Fin b) = Fin (a * b)"
| "times_jsnum (Fin a) PInf = (if a = 0 then NaN else if 0 < a then PInf else NInf)"
| "times_jsnum (Fin a) NInf = (if a = 0 then NaN else if 0 < a then NInf else PInf)"
| "times_jsnum PInf (Fin b) = (if b = 0 then NaN else if 0 < b then PInf else NInf)"
| "times_jsnum NInf (Fin b) = (if b = 0 then NaN else if 0 < b then NInf else PInf)"
| "times_jsnum PInf PInf = PInf"
| "times_jsnum PInf NInf = NInf"
| "times_jsnum NInf PInf = NInf"
| "times_jsnum NInf NInf = PInf"

fun divide_jsnum :: "jsnum \<Rightarrow> jsnum \<Rightarrow> jsnum" where
  "divide_jsnum NaN y = NaN"
| "divide_jsnum x NaN = NaN"
| "divide_jsnum (Fin a) (Fin b) =
     (if b = 0 then (if a = 0 then NaN else if 0 < a then PInf else NInf) else Fin (a / b))"
| "divide_jsnum (Fin a) y = Fin 0"
| "divide_jsnum PInf (Fin b) = (if 0 \<le> b then PInf else NInf)"
| "divide_jsnum NInf (Fin b) = (if 0 \<le> b then NInf else PInf)"
| "divide_jsnum x y = NaN"

fun inverse_jsnum :: "jsnum \<Rightarrow> jsnum" where
  "inverse_jsnum (Fin a) = (if a = 0 then PInf else Fin (1 / a))"
| "inverse_jsnum NaN = NaN"
| "inverse_jsnum x = Fin 0"

fun abs_jsnum :: "jsnum \<Rightarrow> jsnum" where
  "abs_jsnum (Fin a) = Fin \<bar>a\<bar>"
| "abs_jsnum NaN = NaN"
| "abs_jsnum x = PInf"

fun less_jsnum :: "jsnum \<Rightarrow> jsnum \<Rightarrow> bool" where
  "less_jsnum NaN y = False"
| "less_jsnum x NaN = False"
| "less_jsnum (Fin a) (Fin b) = (a < b)"
| "less_jsnum x PInf = (x \<noteq> PInf)"
| "less_jsnum NInf y = (y \<noteq> NInf)"
| "less_jsnum x y = False"

fun less_eq_jsnum :: "jsnum \<Rightarrow> jsnum \<Rightarrow> bool" where
  "less_eq_jsnum NaN y = False"
| "less_eq_jsnum x NaN = False"
| "less_eq_jsnum x y = (\<not> y < x)"

instance ..

end



text \<open>Reading an array element: out of range gives \<open>undefined\<close>, which arithmetic
  turns into NaN.\<close>

definition js_index :: "jsnum list \<Rightarrow> nat \<Rightarrow> jsnum" where
  "js_index xs i = (if i < length xs then xs ! i else NaN)"

section \<open>Strings\<close>

text \<open>
  A JavaScript string is modelled as a list of bytes, the UTF-8 encoding of its text. The
  case mappings below change the ASCII letters only and leave every other byte as it is;
  the language's mappings of letters outside ASCII are not modelled. Likewise \<open>trim\<close>
  removes the ASCII white space only, and the length of a string is its number of bytes.
  Substring tests on the encoding agree with substring tests on the text.
\<close>

definition upper_letters :: string where
  "upper_letters = ''ABCDEFGHIJKLMNOPQRSTUVWXYZ''"

definition lower_letters :: string where
  "lower_letters = ''abcdefghijklmnopqrstuvwxyz''"

definition toLowerCase :: "string \<Rightarrow> string" where
  "toLowerCase s =
     map (\<lambda>c. case map_of (zip upper_letters lower_letters) c of Some l \<Rightarrow> l | None \<Rightarrow> c) s"

definition toUpperCase :: "string \<Rightarrow> string" where
  "toUpperCase s =
     map (\<lambda>c. case map_of (zip lower_letters upper_letters) c of Some u \<Rightarrow> u | None \<Rightarrow> c) s"

text \<open>\<open>s.includes(p)\<close>: \<open>p\<close> occurs in \<open>s\<close> as a contiguous piece.\<close>

fun js_includes :: "string \<Rightarrow> string \<Rightarrow> bool" where
  "js_includes [] p = (p = [])"
| "js_includes (c # cs) p = (prefix p (c # cs) \<or> js_includes cs p)"

definition is_space :: "char \<Rightarrow> bool" where
  "is_space c = (c \<in> set [CHR '' '', CHR 0x09, CHR 0x0A, CHR 0x0B, CHR 0x0C, CHR 0x0D])"

definition trim :: "string \<Rightarrow> string" where
  "trim s = rev (dropWhile is_space (rev (dropWhile is_space s)))"

definition is_digit :: "char \<Rightarrow> bool" where
  "is_digit c = (c \<in> set ''0123456789'')"

definition digit_val :: "char \<Rightarrow> int" where
  "digit_val c = (case map_of (zip ''0123456789'' [0, 1, 2, 3, 4, 5, 6, 7, 8, 9]) c of
                    Some d \<Rightarrow> d | None \<Rightarrow> 0)"

definition digit_char :: "int \<Rightarrow> char" where
  "digit_char d = ''0123456789'' ! nat (d mod 10)"

text \<open>The decimal digits of a non-negative integer.\<close>

function decimal_digits :: "int \<Rightarrow> string" where
  "decimal_digits n =
     (if n < 10 then [digit_char n] else decimal_digits (n div 10) @ [digit_char (n mod 10)])"
  by pat_completeness auto
termination
  by (relation "measure nat") auto

declare decimal_digits.simps [simp del]

section \<open>Server: parsing and formatting numbers\<close>

text \<open>The characters that \<open>text.replace(/[^0-9.-]/g, '')\<close> keeps.\<close>

definition numeric_char :: "char \<Rightarrow> bool" where
  "numeric_char c = (c \<in> set ''0123456789.-'')"

definition strip_non_numeric :: "string \<Rightarrow> string" where
  "strip_non_numeric text = filter numeric_char text"

definition decimal_value :: "string \<Rightarrow> int" where
  "decimal_value ds = foldl (\<lambda>a c. 10 * a + digit_val c) 0 ds"

text \<open>
  \<open>parseFloat\<close> reads the longest prefix that is a decimal literal: an optional sign,
  then digits with an optional fraction, or a point followed by digits. It is applied to
  stripped text only, so the other parts of its grammar (leading white space, a plus sign,
  an exponent, \<open>Infinity\<close>) cannot occur and are left out. Without such a prefix the result
  is NaN.
\<close>

definition parseFloat :: "string \<Rightarrow> jsnum" where
  "parseFloat s =
     (let neg = (case s of c # r \<Rightarrow> c = CHR ''-'' | [] \<Rightarrow> False);
          r = (if neg then tl s else s);
          ip = takeWhile is_digit r;
          r1 = dropWhile is_digit r;
          fp = (case r1 of c # r2 \<Rightarrow> if c = CHR ''.'' then takeWhile is_digit r2 else []
                | [] \<Rightarrow> [])
      in if ip = [] \<and> fp = [] then NaN
         else let v = real_of_int (decimal_value ip) +
                       real_of_int (decimal_value fp) / 10 ^ length fp
              in Fin (if neg then - v else v))"

definition isNaN :: "jsnum \<Rightarrow> bool" where
  "isNaN x = (x = NaN)"

text \<open>\<open>extractNumber(text)\<close>; \<open>None\<close> as argument is a missing text (\<open>null\<close> or
  \<open>undefined\<close>), \<open>None\<close> as result is \<open>null\<close>.\<close>

definition extractNumber :: "string option \<Rightarrow> jsnum option" where
  "extractNumber text =
     (case text of
        None \<Rightarrow> None
      | Some t \<Rightarrow>
          if t = [] then None
          else let numericText = strip_non_numeric t;
                   parsedNumber = parseFloat numericText
               in if isNaN parsedNumber then None else Some parsedNumber)"

text \<open>Digits in groups of three, separated by commas.\<close>

function group_digits :: "string \<Rightarrow> string" where
  "group_digits ds =
     (if length ds \<le> 3 then ds
      else group_digits (take (length ds - 3) ds) @ '','' @ drop (length ds - 3) ds)"
  by pat_completeness auto
termination
  by (relation "measure length") auto

declare group_digits.simps [simp del]

text \<open>The fraction part of a number of hundredths, with at most two digits and no
  trailing zero (\<open>minimumFractionDigits: 0, maximumFractionDigits: 2\<close>).\<close>

definition fraction_digits :: "int \<Rightarrow> string" where
  "fraction_digits f =
     (if f = 0 then []
      else if f mod 10 = 0 then ''.'' @ [digit_char (f div 10)]
      else ''.'' @ [digit_char (f div 10), digit_char (f mod 10)])"

text \<open>The infinity sign U+221E, as the locale prints an infinite number.\<close>

definition infinity_sign :: string where
  "infinity_sign = [CHR 0xE2, CHR 0x88, CHR 0x9E]"

text \<open>
  \<open>number.toLocaleString('en-US', {minimumFractionDigits: 0, maximumFractionDigits: 2})\<close>:
  the magnitude is rounded to hundredths, halves away from zero; the sign is that of the
  number before rounding.
\<close>

definition toLocaleString :: "jsnum \<Rightarrow> string" where
  "toLocaleString number =
     (case number of
        NaN \<Rightarrow> ''NaN''
      | PInf \<Rightarrow> infinity_sign
      | NInf \<Rightarrow> ''-'' @ infinity_sign
      | Fin x \<Rightarrow>
          (let n = \<lfloor>\<bar>x\<bar> * 100 + 1 / 2\<rfloor>
           in (if x < 0 then ''-'' else []) @ group_digits (decimal_digits (n div 100)) @
              fraction_digits (n mod 100)))"

text \<open>\<open>formatNumberWithCommas(number)\<close>; \<open>None\<close> is \<open>null\<close>.\<close>

definition formatNumberWithCommas :: "jsnum option \<Rightarrow> string" where
  "formatNumberWithCommas number =
     (case number of
        None \<Rightarrow> ''N/A''
      | Some n \<Rightarrow>
          if isNaN n then ''N/A''
          else if Fin 1000000000 \<le> \<bar>n\<bar> then toLocaleString (n / Fin 1000000000) @ ''b''
          else if Fin 1000000 \<le> \<bar>n\<bar> then toLocaleString (n / Fin 1000000) @ ''m''
          else toLocaleString n)"

section \<open>Client: the valuation (\<open>calculateDCF\<close>)\<close>

record SourceUrls =
  overview :: string
  financials :: string
  cashFlow :: string
  balanceSheet :: string

record StockData =
  companyName :: string
  ticker :: string
  reportingCurrency :: string
  exchangeRate :: jsnum
  currentPrice :: jsnum
  formattedCurrentPrice :: string
  freeCashFlow :: jsnum
  freeCashFlowUSD :: jsnum
  formattedFreeCashFlow :: string
  formattedFreeCashFlowUSD :: string
  cashAndEquivalents :: jsnum
  cashAndEquivalentsUSD :: jsnum
  formattedCashAndEquivalents :: string
  formattedCashAndEquivalentsUSD :: string
  totalDebt :: jsnum
  totalDebtUSD :: jsnum
  formattedTotalDebt :: string
  formattedTotalDebtUSD :: string
  sharesOutstanding :: jsnum
  formattedSharesOutstanding :: string
  sourceUrls :: SourceUrls








definition terminalValue :: "jsnum list \<Rightarrow> jsnum \<Rightarrow> jsnum \<Rightarrow> jsnum" where
  "terminalValue ys perpetualGrowthRateDecimal discountRateDecimal =
     js_index ys 4 * (1 + perpetualGrowthRateDecimal) /
       (discountRateDecimal - perpetualGrowthRateDecimal)"







section \<open>Server: documents and the network\<close>

text \<open>A JavaScript \<open>Error\<close>: its message, and the status of the HTTP response attached to
  it, if any (\<open>error.response?.status\<close>). \<open>new Error(msg)\<close> attaches none.\<close>

datatype js_error = Error (message: string) (response_status: "nat option")

definition new_Error :: "string \<Rightarrow> js_error" where
  "new_Error msg = Error msg None"

text \<open>
  A parsed page, seen through the queries that the server makes on it. Every field is the
  answer of the page to one of the selectors of the source:
  \<^item> \<open>doc_rows\<close>: for every element of \<open>table tr, .table-row, [data-test="table-row"]\<close>, in
    document order, the text of its first-child cells and the text of its second-child
    cells;
  \<^item> \<open>doc_cells\<close>: for every element of \<open>table td, table th, [data-test="table-cell"],
    .table-cell\<close>, its text and the text of its next sibling (empty without one);
  \<^item> \<open>doc_title\<close>: the text of \<open>title\<close>;
  \<^item> \<open>doc_header_name\<close>: the text of \<open>[data-test="instrument-header-name"], .company-name,
    h1\<close>;
  \<^item> \<open>doc_headings\<close>: the texts of the elements of \<open>h1, h2, .header-text,
    [data-test*="header"]\<close>;
  \<^item> \<open>doc_select\<close>: for a price selector, the text of the matching elements, \<open>None\<close> when
    none matches;
  \<^item> \<open>doc_header_text\<close>: the text of \<open>h1, .financials-header, .table-header\<close>;
  \<^item> \<open>doc_body_text\<close>: the text of \<open>body\<close>.
\<close>

record document =
  doc_rows :: "(string \<times> string) list"
  doc_cells :: "(string \<times> string) list"
  doc_title :: string
  doc_header_name :: string
  doc_headings :: "string list"
  doc_select :: "string \<Rightarrow> string option"
  doc_header_text :: string
  doc_body_text :: string

text \<open>The outcome of \<open>axios.get\<close> on a page: a response with its content-type header and
  its parsed body, or one of the three failures that \<open>fetchHtml\<close> tells apart.\<close>

datatype http_outcome =
    HttpResponse "string option" document
  | HttpStatusFailure nat
  | HttpNoResponse
  | HttpOtherFailure string

text \<open>The quote feed: a failure with its message, or the \<open>regularMarketPrice\<close> found along
  \<open>data?.chart?.result?.[0]?.meta\<close> (\<open>None\<close> when a link of the chain is missing).\<close>

datatype quote_outcome = QuoteFailure string | QuoteData "jsnum option"

text \<open>The rate feed: a failure, or the \<open>rates\<close> object of the response (\<open>None\<close> when the
  response has none, so that reading a rate from it throws).\<close>

datatype rates_outcome = RatesFailure | RatesData "(string \<Rightarrow> jsnum option) option"

text \<open>The world outside the server during one request: what each source answers, and the
  clock. A page answers the same to every fetch of its address within the request.\<close>

record world =
  http_get :: "string \<Rightarrow> http_outcome"
  quote_get :: "string \<Rightarrow> quote_outcome"
  rates_get :: rates_outcome
  clock :: string

text \<open>An asynchronous call of the server yields its result, or the error it throws, and
  the addresses it has requested.\<close>

type_synonym 'a async = "(js_error + 'a) \<times> string list"

text \<open>\<open>fetchHtml(url)\<close>. The choice of the User-Agent header is random and does not enter
  the result. The content-type error is thrown inside the \<open>try\<close> block, so the \<open>catch\<close>
  block rewraps it like any other failure without a response.\<close>

definition fetchHtml :: "world \<Rightarrow> string \<Rightarrow> document async" where
  "fetchHtml w url =
     ((case http_get w url of
         HttpResponse ct doc \<Rightarrow>
           (let contentType = (case ct of Some c \<Rightarrow> c | None \<Rightarrow> [])
            in if \<not> js_includes contentType ''text/html''
               then Inl (new_Error (''Failed to fetch data from '' @ url @ '': '' @
                           ''Unexpected content type: '' @ contentType))
               else Inr doc)
       | HttpStatusFailure st \<Rightarrow>
           Inl (new_Error (''Failed to fetch data from '' @ url @ '': HTTP '' @
                          decimal_digits (int st)))
       | HttpNoResponse \<Rightarrow>
           Inl (new_Error (''Failed to fetch data from '' @ url @
                  '': No response received. The service might be temporarily unavailable.''))
       | HttpOtherFailure msg \<Rightarrow>
           Inl (new_Error (''Failed to fetch data from '' @ url @ '': '' @ msg))),
      [url])"

section \<open>Server: the field extractors\<close>

record FieldResult =
  fr_value :: jsnum
  formattedValue :: string
  sourceUrl :: string

text \<open>The label and the value of a row, as every scan reads them:
  \<open>$(row).find(...).text().trim()\<close>.\<close>

definition rowLabel :: "string \<times> string \<Rightarrow> string" where
  "rowLabel row = trim (fst row)"

definition valueText :: "string \<times> string \<Rightarrow> string" where
  "valueText row = trim (snd row)"

text \<open>A scan that assigns at the first row satisfying a test and breaks (\<open>return false\<close>):
  the variable keeps \<open>null\<close> when no row satisfies the test, and also when the value of that
  first row does not parse.\<close>

definition scan_first :: "(string \<Rightarrow> bool) \<Rightarrow> (string \<times> string) list \<Rightarrow> jsnum option" where
  "scan_first test rows =
     (case find (\<lambda>row. test (rowLabel row)) rows of
        None \<Rightarrow> None
      | Some row \<Rightarrow> extractNumber (Some (valueText row)))"

subsection \<open>\<open>getFreeCashFlow\<close>\<close>

definition fcf_exact :: "(string \<times> string) list \<Rightarrow> jsnum option" where
  "fcf_exact rows = scan_first (\<lambda>l. l = ''Free Cash Flow'') rows"

definition fcf_substring :: "(string \<times> string) list \<Rightarrow> jsnum option" where
  "fcf_substring rows = scan_first (\<lambda>l. js_includes (toLowerCase l) ''free cash flow'') rows"

text \<open>The third attempt scans all rows without breaking; a later matching row overwrites
  an earlier one.\<close>

definition fcf_derived_step ::
  "jsnum option \<times> jsnum option \<Rightarrow> string \<times> string \<Rightarrow> jsnum option \<times> jsnum option" where
  "fcf_derived_step acc row =
     (let l = toLowerCase (rowLabel row); v = valueText row
      in if js_includes l ''operating cash flow'' \<or> js_includes l ''cash from operations'' \<or>
            js_includes l ''net cash provided by operating activities''
         then (extractNumber (Some v), snd acc)
         else if js_includes l ''capital expenditure'' \<or> js_includes l ''capex'' \<or>
                 js_includes l ''purchases of property and equipment''
         then (fst acc, extractNumber (Some v))
         else acc)"

definition fcf_derived :: "(string \<times> string) list \<Rightarrow> jsnum option" where
  "fcf_derived rows =
     (case foldl fcf_derived_step (None, None) rows of
        (Some operatingCashFlow, Some capitalExpenditures) \<Rightarrow>
          Some (operatingCashFlow - \<bar>capitalExpenditures\<bar>)
      | _ \<Rightarrow> None)"

definition freeCashFlow_of_rows :: "(string \<times> string) list \<Rightarrow> jsnum option" where
  "freeCashFlow_of_rows rows =
     (let f1 = fcf_exact rows;
          f2 = (if f1 = None then fcf_substring rows else f1);
          f3 = (if f2 = None then fcf_derived rows else f2)
      in f3)"

definition getFreeCashFlow :: "world \<Rightarrow> string \<Rightarrow> FieldResult async" where
  "getFreeCashFlow w tkr =
     (let url = ''https://stockanalysis.com/stocks/'' @ tkr @
                ''/financials/cash-flow-statement/'';
          (page, log) = fetchHtml w url
      in case page of
           Inl e \<Rightarrow> (Inl e, log)
         | Inr doc \<Rightarrow>
             (case freeCashFlow_of_rows (doc_rows doc) of
                None \<Rightarrow> (Inl (new_Error (''Failed to parse Free Cash Flow data for '' @ tkr)),
                         log)
              | Some v \<Rightarrow>
                  (Inr \<lparr> fr_value = v, formattedValue = formatNumberWithCommas (Some v),
                         sourceUrl = url \<rparr>, log)))"

subsection \<open>\<open>getBalanceSheetData\<close>\<close>

record BalanceSheetData =
  bs_cashAndEquivalents :: jsnum
  bs_formattedCashAndEquivalents :: string
  bs_totalDebt :: jsnum
  bs_formattedTotalDebt :: string
  bs_sourceUrl :: string

text \<open>The first scan has no \<open>break\<close>: every matching row assigns, the last one wins, and a
  value that does not parse resets the variable to \<open>null\<close>.\<close>

definition balance_step ::
  "jsnum option \<times> jsnum option \<Rightarrow> string \<times> string \<Rightarrow> jsnum option \<times> jsnum option" where
  "balance_step acc row =
     (let l = toLowerCase (rowLabel row); v = valueText row
      in if js_includes l ''cash and cash equivalents'' \<or> l = ''cash and equivalents'' \<or>
            l = ''cash & equivalents''
         then (extractNumber (Some v), snd acc)
         else if js_includes l ''total debt''
         then (fst acc, extractNumber (Some v))
         else acc)"

definition debt_step ::
  "jsnum option \<times> jsnum option \<Rightarrow> string \<times> string \<Rightarrow> jsnum option \<times> jsnum option" where
  "debt_step acc row =
     (let l = toLowerCase (rowLabel row); v = valueText row
      in if js_includes l ''long-term debt'' \<or> js_includes l ''long term debt''
         then (extractNumber (Some v), snd acc)
         else if js_includes l ''short-term debt'' \<or> js_includes l ''short term debt'' \<or>
                 js_includes l ''current portion of long-term debt''
         then (fst acc, extractNumber (Some v))
         else acc)"

definition debt_derived :: "(string \<times> string) list \<Rightarrow> jsnum option" where
  "debt_derived rows =
     (case foldl debt_step (None, None) rows of
        (Some longTermDebt, Some shortTermDebt) \<Rightarrow> Some (longTermDebt + shortTermDebt)
      | (Some longTermDebt, None) \<Rightarrow> Some longTermDebt
      | (None, _) \<Rightarrow> None)"

definition balance_of_rows :: "(string \<times> string) list \<Rightarrow> jsnum option \<times> jsnum option" where
  "balance_of_rows rows =
     (let (cash1, debt1) = foldl balance_step (None, None) rows;
          cash2 = (if cash1 = None
                   then scan_first (\<lambda>l. js_includes (toLowerCase l) ''cash'' \<and>
                                         \<not> js_includes (toLowerCase l) ''flow'') rows
                   else cash1);
          debt2 = (if debt1 = None then debt_derived rows else debt1)
      in (cash2, debt2))"

definition getBalanceSheetData :: "world \<Rightarrow> string \<Rightarrow> BalanceSheetData async" where
  "getBalanceSheetData w tkr =
     (let url = ''https://stockanalysis.com/stocks/'' @ tkr @
                ''/financials/balance-sheet/?p=trailing'';
          (page, log) = fetchHtml w url
      in case page of
           Inl e \<Rightarrow> (Inl e, log)
         | Inr doc \<Rightarrow>
             (case balance_of_rows (doc_rows doc) of
                (None, _) \<Rightarrow>
                  (Inl (new_Error (''Failed to parse Cash and Equivalents data for '' @ tkr)),
                   log)
              | (Some c, None) \<Rightarrow>
                  (Inl (new_Error (''Failed to parse Total Debt data for '' @ tkr)), log)
              | (Some c, Some d) \<Rightarrow>
                  (Inr \<lparr> bs_cashAndEquivalents = c,
                         bs_formattedCashAndEquivalents = formatNumberWithCommas (Some c),
                         bs_totalDebt = d,
                         bs_formattedTotalDebt = formatNumberWithCommas (Some d),
                         bs_sourceUrl = url \<rparr>, log)))"

subsection \<open>\<open>getSharesOutstanding\<close>\<close>

fun first_some :: "('a \<Rightarrow> 'b option) \<Rightarrow> 'a list \<Rightarrow> 'b option" where
  "first_some f [] = None"
| "first_some f (x # xs) = (case f x of Some y \<Rightarrow> Some y | None \<Rightarrow> first_some f xs)"

text \<open>One step of the scan over all cells: the value that the cell yields, if it passes
  the keyword test and the plausibility bound.\<close>

definition shares_cell :: "string \<times> string \<Rightarrow> jsnum option" where
  "shares_cell cell =
     (let cellText = toLowerCase (trim (fst cell))
      in if js_includes cellText ''shares'' \<and> js_includes cellText ''outstanding'' \<and>
            \<not> js_includes cellText ''treasury''
         then (let v = (if trim (snd cell) \<noteq> [] then trim (snd cell) else cellText)
               in case extractNumber (Some v) of
                    Some possibleValue \<Rightarrow>
                      if Fin 1000000 < possibleValue then Some possibleValue else None
                  | None \<Rightarrow> None)
         else None)"

definition shares_of_document :: "document \<Rightarrow> jsnum option" where
  "shares_of_document doc =
     (let s1 = scan_first (\<lambda>l. js_includes (toLowerCase l) ''shares outstanding (diluted)'' \<or>
                               js_includes (toLowerCase l) ''diluted shares outstanding'' \<or>
                               js_includes (toLowerCase l) ''weighted average shares diluted'')
                 (doc_rows doc);
          s2 = (if s1 = None
                then scan_first (\<lambda>l. js_includes (toLowerCase l) ''shares outstanding'' \<or>
                                      js_includes (toLowerCase l) ''common shares outstanding'')
                       (doc_rows doc)
                else s1);
          s3 = (if s2 = None then first_some shares_cell (doc_cells doc) else s2)
      in s3)"

definition getSharesOutstanding :: "world \<Rightarrow> string \<Rightarrow> FieldResult async" where
  "getSharesOutstanding w tkr =
     (let url = ''https://stockanalysis.com/stocks/'' @ tkr @ ''/financials/'';
          (page, log) = fetchHtml w url
      in case page of
           Inl e \<Rightarrow> (Inl e, log)
         | Inr doc \<Rightarrow>
             (case shares_of_document doc of
                None \<Rightarrow>
                  (Inl (new_Error (''Failed to parse Shares Outstanding data for '' @ tkr)), log)
              | Some v \<Rightarrow>
                  (Inr \<lparr> fr_value = v, formattedValue = formatNumberWithCommas (Some v),
                         sourceUrl = url \<rparr>, log)))"

subsection \<open>\<open>getCurrentPrice\<close>\<close>

definition priceSelectors :: "string list" where
  "priceSelectors =
     [''[data-test=\"price-value\"]'', ''[data-test=\"symbol-price\"]'', ''.symbol-price'',
      ''.price-value'', ''[data-test=\"instrument-price-last\"]'']"

text \<open>A number is truthy unless it is zero or NaN.\<close>

definition truthy :: "jsnum \<Rightarrow> bool" where
  "truthy x = (x \<noteq> NaN \<and> x \<noteq> Fin 0)"

fun price_scan :: "document \<Rightarrow> string list \<Rightarrow> jsnum option" where
  "price_scan doc [] = None"
| "price_scan doc (selector # rest) =
     (case doc_select doc selector of
        None \<Rightarrow> price_scan doc rest
      | Some text \<Rightarrow>
          (case extractNumber (Some (trim text)) of
             Some price \<Rightarrow> if 0 < price then Some price else price_scan doc rest
           | None \<Rightarrow> price_scan doc rest))"

text \<open>Every error raised inside \<open>getCurrentPrice\<close>, its own parse error included, is caught
  by its \<open>catch\<close> block and rethrown under the prefix \<open>Failed to fetch current price\<close>.\<close>

definition getCurrentPrice :: "world \<Rightarrow> string \<Rightarrow> FieldResult async" where
  "getCurrentPrice w tkr =
     (let yahooUrl = ''https://query1.finance.yahoo.com/v8/finance/chart/'' @ tkr;
          rethrow = (\<lambda>msg. new_Error (''Failed to fetch current price for '' @ tkr @ '': '' @ msg));
          url = ''https://stockanalysis.com/stocks/'' @ tkr @ ''/'';
          fallback =
            (let (page, log) = fetchHtml w url
             in case page of
                  Inl e \<Rightarrow> (Inl (rethrow (message e)), yahooUrl # log)
                | Inr doc \<Rightarrow>
                    (case price_scan doc priceSelectors of
                       None \<Rightarrow>
                         (Inl (rethrow (''Failed to parse Current Price data for '' @ tkr)),
                          yahooUrl # log)
                     | Some p \<Rightarrow>
                         (Inr \<lparr> fr_value = p, formattedValue = formatNumberWithCommas (Some p),
                                sourceUrl = url \<rparr>, yahooUrl # log)))
      in case quote_get w yahooUrl of
           QuoteFailure msg \<Rightarrow> (Inl (rethrow msg), [yahooUrl])
         | QuoteData None \<Rightarrow> fallback
         | QuoteData (Some price) \<Rightarrow>
             if truthy price
             then (Inr \<lparr> fr_value = price, formattedValue = formatNumberWithCommas (Some price),
                          sourceUrl = ''https://finance.yahoo.com/quote/'' @ tkr \<rparr>, [yahooUrl])
             else fallback)"

subsection \<open>\<open>getCompanyName\<close>\<close>

text \<open>\<open>s.replace(new RegExp(pat, 'i'), '')\<close> for a pattern without special characters: the
  first occurrence of \<open>pat\<close>, compared without regard to case, is removed.\<close>

fun replace_first_ci :: "string \<Rightarrow> string \<Rightarrow> string" where
  "replace_first_ci pat [] = []"
| "replace_first_ci pat (c # cs) =
     (if prefix (toLowerCase pat) (toLowerCase (c # cs)) then drop (length pat) (c # cs)
      else c # replace_first_ci pat cs)"

definition remove_ticker :: "string \<Rightarrow> string \<Rightarrow> string" where
  "remove_ticker tkr s = replace_first_ci (''('' @ tkr @ '')'') s"

text \<open>\<open>!companyName\<close>: the name is \<open>null\<close> or empty.\<close>

definition no_name :: "string option \<Rightarrow> bool" where
  "no_name n = (n = None \<or> n = Some [])"

definition heading_ok :: "string \<Rightarrow> string \<Rightarrow> bool" where
  "heading_ok tkr el =
     (let text = trim el
      in text \<noteq> [] \<and> 1 < length text \<and> length text < 100 \<and>
         \<not> js_includes text ''http'' \<and> \<not> js_includes text ''www'' \<and>
         trim (remove_ticker tkr text) \<noteq> [])"

definition name_of_document :: "string \<Rightarrow> document \<Rightarrow> string option" where
  "name_of_document tkr doc =
     (let title = doc_title doc;
          n1 = (if title \<noteq> [] \<and> CHR ''|'' \<in> set title
                then Some (trim (takeWhile (\<lambda>c. c \<noteq> CHR ''|'') title)) else None);
          n2 = (if no_name n1 then Some (trim (remove_ticker tkr (trim (doc_header_name doc))))
                else n1);
          n3 = (if no_name n2
                then (case find (heading_ok tkr) (doc_headings doc) of
                        Some el \<Rightarrow> Some (trim (remove_ticker tkr (trim el)))
                      | None \<Rightarrow> n2)
                else n2)
      in n3)"

definition getCompanyName :: "world \<Rightarrow> string \<Rightarrow> string async" where
  "getCompanyName w tkr =
     (let url = ''https://stockanalysis.com/stocks/'' @ tkr @ ''/'';
          (page, log) = fetchHtml w url
      in case page of
           Inl e \<Rightarrow> (Inl e, log)
         | Inr doc \<Rightarrow>
             (case name_of_document tkr doc of
                None \<Rightarrow> (Inl (new_Error (''Failed to parse Company Name for '' @ tkr)), log)
              | Some n \<Rightarrow>
                  if n = [] then (Inl (new_Error (''Failed to parse Company Name for '' @ tkr)), log)
                  else (Inr n, log)))"

section \<open>Server: the reporting currency and the exchange rate\<close>

text \<open>The keyword table, in the order of its entries. The euro and the pound sign are
  written as their UTF-8 bytes.\<close>

definition currencyPatterns :: "(string \<times> string list) list" where
  "currencyPatterns =
     [(''TWD'', [''millions twd'', ''twd millions'', ''million twd'', ''ntd'',
                 ''new taiwan dollar'', ''taiwan dollar'']),
      (''CNY'', [''millions cny'', ''cny millions'', ''million cny'', ''rmb'', ''yuan'',
                 ''chinese yuan'']),
      (''JPY'', [''millions jpy'', ''jpy millions'', ''million jpy'', ''yen'',
                 ''japanese yen'']),
      (''EUR'', [''millions eur'', ''eur millions'', ''million eur'',
                 [CHR 0xE2, CHR 0x82, CHR 0xAC], ''euro'']),
      (''GBP'', [''millions gbp'', ''gbp millions'', ''million gbp'', [CHR 0xC2, CHR 0xA3],
                 ''british pound'']),
      (''HKD'', [''millions hkd'', ''hkd millions'', ''million hkd'', ''hong kong dollar''])]"

text \<open>The loop over the entries of the table: the first entry with a pattern that the text
  includes.\<close>

definition keyword_currency :: "string \<Rightarrow> string option" where
  "keyword_currency text =
     (case find (\<lambda>(cname, patterns). list_ex (\<lambda>pattern. js_includes text pattern) patterns)
             currencyPatterns of
        Some (cname, patterns) \<Rightarrow> Some cname
      | None \<Rightarrow> None)"

definition is_letter :: "char \<Rightarrow> bool" where
  "is_letter c = (c \<in> set lower_letters \<or> c \<in> set upper_letters)"

text \<open>\<open>text.match(/financials in millions ([a-z]{3})/i)\<close>: the captured group of the
  leftmost match, \<open>None\<close> without a match.\<close>

fun match_financials :: "string \<Rightarrow> string option" where
  "match_financials [] = None"
| "match_financials (c # cs) =
     (let s = c # cs;
          lit = ''financials in millions '';
          code = take 3 (drop (length lit) s)
      in if toLowerCase (take (length lit) s) = lit \<and> length code = 3 \<and> list_all is_letter code
         then Some code
         else match_financials cs)"

definition currency_of_document :: "document \<Rightarrow> string" where
  "currency_of_document doc =
     (let headerText = toLowerCase (doc_header_text doc);
          pageText = toLowerCase (doc_body_text doc);
          c1 = (case keyword_currency headerText of Some cname \<Rightarrow> cname | None \<Rightarrow> ''USD'');
          c2 = (if c1 = ''USD''
                then (case keyword_currency pageText of Some cname \<Rightarrow> cname | None \<Rightarrow> c1)
                else c1);
          c3 = (case match_financials pageText of
                  Some code \<Rightarrow>
                    (let detectedCurrency = toUpperCase code
                     in if code \<noteq> [] \<and> detectedCurrency \<in> set (map fst currencyPatterns)
                        then detectedCurrency else c2)
                | None \<Rightarrow> c2)
      in c3)"

definition detectReportingCurrency :: "world \<Rightarrow> string \<Rightarrow> string async" where
  "detectReportingCurrency w tkr =
     (let url = ''https://stockanalysis.com/stocks/'' @ tkr @ ''/financials/'';
          (page, log) = fetchHtml w url
      in case page of
           Inl e \<Rightarrow> (Inl e, log)
         | Inr doc \<Rightarrow> (Inr (currency_of_document doc), log))"

record ExchangeRate =
  rate :: jsnum
  timestamp :: string
  fromCurrency :: string
  toCurrency :: string
  rate_error :: bool

definition rates_url :: string where
  "rates_url = ''https://api.exchangerate-api.com/v4/latest/USD''"

text \<open>The \<open>try\<close> block of \<open>getExchangeRate\<close>. A failed request throws; so does reading a rate
  from a response without a \<open>rates\<close> object. A currency missing from the rates is
  \<open>undefined\<close>, and \<open>1 / undefined\<close> is NaN.\<close>

definition exchangeRate_try :: "world \<Rightarrow> string \<Rightarrow> js_error + ExchangeRate" where
  "exchangeRate_try w fromC =
     (case rates_get w of
        RatesFailure \<Rightarrow> Inl (new_Error ''Request failed'')
      | RatesData None \<Rightarrow> Inl (new_Error ''Cannot read properties of undefined'')
      | RatesData (Some rates) \<Rightarrow>
          Inr \<lparr> rate = 1 / (case rates fromC of Some r \<Rightarrow> r | None \<Rightarrow> NaN),
                timestamp = clock w, fromCurrency = fromC, toCurrency = ''USD'',
                rate_error = False \<rparr>)"

definition getExchangeRate :: "world \<Rightarrow> string \<Rightarrow> ExchangeRate async" where
  "getExchangeRate w fromC =
     (if fromC = ''USD''
      then (Inr \<lparr> rate = 1, timestamp = clock w, fromCurrency = ''USD'', toCurrency = ''USD'',
                   rate_error = False \<rparr>, [])
      else (case exchangeRate_try w fromC of
              Inr r \<Rightarrow> (Inr r, [rates_url])
            | Inl e \<Rightarrow>
                (Inr \<lparr> rate = 1, timestamp = clock w, fromCurrency = fromC,
                       toCurrency = ''USD'', rate_error = True \<rparr>, [rates_url])))"

section \<open>Server: the endpoint \<open>GET /stock/:ticker\<close>\<close>

record ErrorBody =
  eb_message :: string
  eb_status :: nat
  originalError :: "string option"

text \<open>What the endpoint sends: the HTTP status and the JSON body, whose \<open>data\<close> and \<open>error\<close>
  fields are present or absent.\<close>

record response =
  status :: nat
  success :: bool
  data :: "StockData option"
  error_body :: "ErrorBody option"

definition handleError :: "js_error \<Rightarrow> string \<Rightarrow> response" where
  "handleError e tkr =
     (let isScrapingError = (js_includes (message e) ''Failed to parse'' \<or>
                             js_includes (message e) ''Failed to fetch'');
          st = (case response_status e of
                  Some s \<Rightarrow> if s \<noteq> 0 then s else if isScrapingError then 503 else 500
                | None \<Rightarrow> if isScrapingError then 503 else 500);
          msg = (if isScrapingError
                 then ''Unable to retrieve data for '' @ tkr @
                      ''. This could be due to temporary service issues or changes in the website structure.''
                 else if message e \<noteq> [] then message e else ''Internal Server Error'')
      in \<lparr> status = st, success = False, data = None,
           error_body = Some \<lparr> eb_message = msg, eb_status = st,
                                originalError = Some (message e) \<rparr> \<rparr>)"

text \<open>The test \<open>/^[A-Z]{1,5}$/\<close>.\<close>

definition ticker_format :: "string \<Rightarrow> bool" where
  "ticker_format s = (1 \<le> length s \<and> length s \<le> 5 \<and> list_all (\<lambda>c. c \<in> set upper_letters) s)"

definition invalid_ticker_response :: response where
  "invalid_ticker_response =
     \<lparr> status = 400, success = False, data = None,
       error_body = Some \<lparr> eb_message =
           ''Invalid ticker format. Please provide a valid stock ticker symbol.'',
         eb_status = 400, originalError = None \<rparr> \<rparr>"

text \<open>
  \<open>Promise.all\<close> rejects with the rejection that settles first. \<open>order\<close> lists the five
  calls (numbered from 0) in the order in which they settle; the error reported is that of
  the first failing call in this order, and the error \<open>dflt\<close> of the first failing call in
  the order of the array when \<open>order\<close> names no failing call.
\<close>

definition first_rejection :: "nat list \<Rightarrow> js_error option list \<Rightarrow> js_error \<Rightarrow> js_error" where
  "first_rejection order errs dflt =
     (case first_some (\<lambda>i. if i < length errs then errs ! i else None) order of
        Some e \<Rightarrow> e
      | None \<Rightarrow> dflt)"

definition rejection :: "js_error + 'a \<Rightarrow> js_error option" where
  "rejection r = (case r of Inl e \<Rightarrow> Some e | Inr v \<Rightarrow> None)"

definition stock_data ::
  "string \<Rightarrow> string \<Rightarrow> ExchangeRate \<Rightarrow> string \<Rightarrow> FieldResult \<Rightarrow> FieldResult \<Rightarrow>
   BalanceSheetData \<Rightarrow> FieldResult \<Rightarrow> StockData" where
  "stock_data tkr currency ex name price fcf bal shares =
     (let convertToUSD = (\<lambda>v. v * rate ex)
      in \<lparr> companyName = name,
           ticker = tkr,
           reportingCurrency = currency,
           exchangeRate = rate ex,
           currentPrice = fr_value price,
           formattedCurrentPrice = formattedValue price,
           freeCashFlow = fr_value fcf,
           freeCashFlowUSD = convertToUSD (fr_value fcf),
           formattedFreeCashFlow =
             formatNumberWithCommas (Some (fr_value fcf)) @ '' '' @ currency,
           formattedFreeCashFlowUSD =
             ''$'' @ formatNumberWithCommas (Some (convertToUSD (fr_value fcf))),
           cashAndEquivalents = bs_cashAndEquivalents bal,
           cashAndEquivalentsUSD = convertToUSD (bs_cashAndEquivalents bal),
           formattedCashAndEquivalents =
             formatNumberWithCommas (Some (bs_cashAndEquivalents bal)) @ '' '' @ currency,
           formattedCashAndEquivalentsUSD =
             ''$'' @ formatNumberWithCommas (Some (convertToUSD (bs_cashAndEquivalents bal))),
           totalDebt = bs_totalDebt bal,
           totalDebtUSD = convertToUSD (bs_totalDebt bal),
           formattedTotalDebt =
             formatNumberWithCommas (Some (bs_totalDebt bal)) @ '' '' @ currency,
           formattedTotalDebtUSD =
             ''$'' @ formatNumberWithCommas (Some (convertToUSD (bs_totalDebt bal))),
           sharesOutstanding = fr_value shares,
           formattedSharesOutstanding = formattedValue shares,
           sourceUrls = \<lparr> overview = sourceUrl price, financials = sourceUrl shares,
                          cashFlow = sourceUrl fcf, balanceSheet = bs_sourceUrl bal \<rparr> \<rparr>)"

text \<open>
  The handler of the route, on the path parameter \<open>param\<close>. Its result is the response and
  the list of the addresses requested on the way (which requests are made, not how they
  interleave). The five extractions are all started before any of them is awaited, so all
  of them make their requests, also when one of them fails.
\<close>

definition stock_route :: "world \<Rightarrow> nat list \<Rightarrow> string \<Rightarrow> response \<times> string list" where
  "stock_route w order param =
     (let tkr = toUpperCase param
      in if \<not> ticker_format tkr then (invalid_ticker_response, [])
         else
           (let (cur, l1) = detectReportingCurrency w tkr
            in case cur of
                 Inl e \<Rightarrow> (handleError e tkr, l1)
               | Inr currency \<Rightarrow>
                   (let (exr, l2) = getExchangeRate w currency
                    in case exr of
                         Inl e \<Rightarrow> (handleError e tkr, l1 @ l2)
                       | Inr ex \<Rightarrow>
                           (let (r1, l3) = getCompanyName w tkr;
                                (r2, l4) = getCurrentPrice w tkr;
                                (r3, l5) = getFreeCashFlow w tkr;
                                (r4, l6) = getBalanceSheetData w tkr;
                                (r5, l7) = getSharesOutstanding w tkr;
                                log = l1 @ l2 @ l3 @ l4 @ l5 @ l6 @ l7;
                                fail = (\<lambda>e. (handleError
                                          (first_rejection order
                                             [rejection r1, rejection r2, rejection r3,
                                              rejection r4, rejection r5] e) tkr, log))
                            in case r1 of Inl e \<Rightarrow> fail e | Inr name \<Rightarrow>
                               (case r2 of Inl e \<Rightarrow> fail e | Inr price \<Rightarrow>
                               (case r3 of Inl e \<Rightarrow> fail e | Inr fcf \<Rightarrow>
                               (case r4 of Inl e \<Rightarrow> fail e | Inr bal \<Rightarrow>
                               (case r5 of Inl e \<Rightarrow> fail e | Inr shares \<Rightarrow>
                                  (\<lparr> status = 200, success = True,
                                      data = Some (stock_data tkr currency ex name price fcf
                                                     bal shares),
                                      error_body = None \<rparr>, log)))))))))"

section \<open>Example documents and worlds\<close>

text \<open>Concrete inputs on which the statements below are evaluated.\<close>

definition html_page :: "document \<Rightarrow> http_outcome" where
  "html_page doc = HttpResponse (Some ''text/html; charset=utf-8'') doc"

definition example_document :: document where
  "example_document =
     \<lparr> doc_rows = [(''Free Cash Flow Margin'', ''30.1%''),
                   (''Free Cash Flow'', ''870,170''),
                   (''Cash & Equivalents'', ''2,127,627''),
                   (''Total Debt'', ''958,928''),
                   (''Shares Outstanding (Diluted)'', ''25,929'')],
       doc_cells = [],
       doc_title = ''Taiwan Semiconductor (TSM) Stock Price | Stock Analysis'',
       doc_header_name = ''Taiwan Semiconductor (TSM)'',
       doc_headings = [''Taiwan Semiconductor (TSM)''],
       doc_select = (\<lambda>selector. None),
       doc_header_text = ''Taiwan Semiconductor (TSM)'',
       doc_body_text = ''Financials in millions TWD. Fiscal year is January - December.'' \<rparr>"

text \<open>Every page is the given document, the quote feed answers 190.5, and the rate feed
  answers as given.\<close>

definition example_world :: "document \<Rightarrow> rates_outcome \<Rightarrow> world" where
  "example_world doc rates =
     \<lparr> http_get = (\<lambda>url. html_page doc),
       quote_get = (\<lambda>url. QuoteData (Some (Fin (381 / 2)))),
       rates_get = rates,
       clock = ''2025-01-01T00:00:00.000Z'' \<rparr>"


text \<open>A rate feed that answers, with rate 1 for every currency.\<close>

definition unit_rates :: rates_outcome where
  "unit_rates = RatesData (Some (\<lambda>c. Some (Fin 1)))"





section \<open>Predicates of the statements\<close>


text \<open>The rate feed fails: the request fails, or its response has no \<open>rates\<close> object.\<close>

definition feed_failure :: "world \<Rightarrow> bool" where
  "feed_failure w =
     (case rates_get w of
        RatesFailure \<Rightarrow> True
      | RatesData None \<Rightarrow> True
      | RatesData (Some rates) \<Rightarrow> False)"


section \<open>Arithmetic of JavaScript numbers\<close>

lemma jsnum_mult_assoc: "(x * y) * z = x * (y * (z::jsnum))"
  by (cases x; cases y; cases z)
     (auto simp: zero_less_mult_iff mult_less_0_iff not_less)

lemma jsnum_mult_commute: "x * y = y * (x::jsnum)"
  by (cases x; cases y) (auto simp: mult.commute)

lemma jsnum_add_assoc: "(x + y) + z = x + (y + (z::jsnum))"
  by (cases x; cases y; cases z) auto

lemma jsnum_add_commute: "x + y = y + (x::jsnum)"
  by (cases x; cases y) auto

instance jsnum :: comm_monoid_add
proof
  fix a b c :: jsnum
  show "a + b + c = a + (b + c)" by (rule jsnum_add_assoc)
  show "a + b = b + a" by (rule jsnum_add_commute)
  show "0 + a = a" by (cases a) (simp_all add: zero_jsnum_def)
qed

instance jsnum :: comm_monoid_mult
proof
  fix a b c :: jsnum
  show "a * b * c = a * (b * c)" by (rule jsnum_mult_assoc)
  show "a * b = b * a" by (rule jsnum_mult_commute)
  show "1 * a = a" by (cases a) (simp_all add: one_jsnum_def)
qed






section \<open>The valuation\<close>








text \<open>What the unguarded terminal value is when the two rates are finite and the
  discount rate does not exceed the perpetual growth rate: an infinity (or NaN) when they
  are equal, a finite value of the opposite sign when the discount rate is smaller.\<close>

lemma terminalValue_equal_rates:
  assumes "length ys = 5" and "ys ! 4 = Fin y"
  shows "terminalValue ys (Fin x) (Fin x) =
           (if y * (1 + x) = 0 then NaN else if 0 < y * (1 + x) then PInf else NInf)"
  using assms by (simp add: terminalValue_def js_index_def one_jsnum_def minus_jsnum_def)

lemma terminalValue_smaller_rate:
  assumes "length ys = 5" and "ys ! 4 = Fin y" and "d < p"
  shows "terminalValue ys (Fin p) (Fin d) = Fin (y * (1 + p) / (d - p))"
  using assms by (simp add: terminalValue_def js_index_def one_jsnum_def minus_jsnum_def)



section \<open>Parsing and formatting numbers\<close>






lemma parseFloat_NaN_iff:
  "parseFloat s = NaN \<longleftrightarrow>
     (let r = (if prefix ''-'' s then tl s else s)
      in \<not> (\<exists>c. is_digit c \<and> (prefix [c] r \<or> prefix [CHR ''.'', c] r)))"
proof -
  have neg: "(case s of c # r \<Rightarrow> c = CHR ''-'' | [] \<Rightarrow> False) = prefix ''-'' s"
    by (cases s) auto
  define r where "r = (if prefix ''-'' s then tl s else s)"
  have ip: "takeWhile is_digit r = [] \<longleftrightarrow> \<not> (\<exists>c. is_digit c \<and> prefix [c] r)"
    by (cases r) auto
  have fp: "takeWhile is_digit r = [] \<Longrightarrow>
      (case dropWhile is_digit r of
         c # r2 \<Rightarrow> if c = CHR ''.'' then takeWhile is_digit r2 else [] | [] \<Rightarrow> []) = [] \<longleftrightarrow>
      \<not> (\<exists>c. is_digit c \<and> prefix [CHR ''.'', c] r)"
  proof (cases r)
    case Nil
    then show ?thesis by simp
  next
    case (Cons a r')
    assume "takeWhile is_digit r = []"
    with Cons have nd: "\<not> is_digit a" by (auto split: if_splits)
    show ?thesis
    proof (cases r')
      case Nil
      with Cons nd show ?thesis by auto
    next
      case (Cons b r'')
      with \<open>r = a # r'\<close> nd show ?thesis by auto
    qed
  qed
  have dot: "\<not> is_digit (CHR ''.'')" by (simp add: is_digit_def)
  have "parseFloat s = NaN \<longleftrightarrow>
      (takeWhile is_digit r = [] \<and>
       (case dropWhile is_digit r of
         c # r2 \<Rightarrow> if c = CHR ''.'' then takeWhile is_digit r2 else [] | [] \<Rightarrow> []) = [])"
    unfolding parseFloat_def neg r_def by (simp add: Let_def)
  also have "\<dots> \<longleftrightarrow> \<not> (\<exists>c. is_digit c \<and> (prefix [c] r \<or> prefix [CHR ''.'', c] r))"
    using ip fp by blast
  finally show ?thesis
    unfolding r_def by (simp add: Let_def)
qed


lemma format_million: "formatNumberWithCommas (Some (Fin 1234567)) = ''1.23m''"
  by code_simp

lemma format_billion: "formatNumberWithCommas (Some (Fin 1500000000)) = ''1.5b''"
  by code_simp

lemma format_missing:
  "formatNumberWithCommas None = ''N/A''" "formatNumberWithCommas (Some NaN) = ''N/A''"
  by (simp_all add: formatNumberWithCommas_def isNaN_def)

text \<open>
  C7, as the specification states it, fails on the second example: the formatter prints at
  most two fraction digits and no trailing zero, so 1,500,000,000 is not printed as
  \<open>1.50b\<close>.
\<close>

theorem format_billion_counterexample:
  "formatNumberWithCommas (Some (Fin 1500000000)) \<noteq> ''1.50b''"
  by (simp add: format_billion)

text \<open>
  C7, amended. The number formatter maps 1,234,567 to \<open>1.23m\<close>, maps 1,500,000,000 to
  \<open>1.5b\<close>, and maps \<open>null\<close> and NaN to \<open>N/A\<close>.
\<close>

theorem formatNumberWithCommas_examples:
  "formatNumberWithCommas (Some (Fin 1234567)) = ''1.23m'' \<and>
   formatNumberWithCommas (Some (Fin 1500000000)) = ''1.5b'' \<and>
   formatNumberWithCommas None = ''N/A'' \<and>
   formatNumberWithCommas (Some NaN) = ''N/A''"
  by (simp add: format_million format_billion format_missing)

section \<open>The endpoint\<close>


lemma handleError_fields:
  "success (handleError e t) = False" "data (handleError e t) = None"
  "error_body (handleError e t) \<noteq> None"
  by (simp_all add: handleError_def Let_def)











lemma getExchangeRate_not_Inl: "getExchangeRate w c \<noteq> (Inl e, l)"
  by (simp add: getExchangeRate_def split: sum.splits)



lemma rejection_Some: "rejection r = Some e \<longleftrightarrow> r = Inl e"
  by (cases r) (auto simp: rejection_def)



text \<open>The route succeeds exactly when the ticker is well formed, the currency page is
  fetched, and each of the five extractions succeeds. The rate feed does not enter.\<close>

lemma stock_route_success_iff:
  "success (fst (stock_route w order param)) \<longleftrightarrow>
     ticker_format (toUpperCase param) \<and>
     \<not> isl (fst (detectReportingCurrency w (toUpperCase param))) \<and>
     \<not> isl (fst (getCompanyName w (toUpperCase param))) \<and>
     \<not> isl (fst (getCurrentPrice w (toUpperCase param))) \<and>
     \<not> isl (fst (getFreeCashFlow w (toUpperCase param))) \<and>
     \<not> isl (fst (getBalanceSheetData w (toUpperCase param))) \<and>
     \<not> isl (fst (getSharesOutstanding w (toUpperCase param)))"
  by (auto simp add: stock_route_def Let_def handleError_fields invalid_ticker_response_def
        getExchangeRate_not_Inl split: prod.splits sum.splits)



text \<open>The shape of a successful answer.\<close>

lemma stock_route_ok:
  assumes "ticker_format (toUpperCase param)"
    and "detectReportingCurrency w (toUpperCase param) = (Inr c, l1)"
    and "getExchangeRate w c = (Inr ex, l2)"
    and "getCompanyName w (toUpperCase param) = (Inr n, l3)"
    and "getCurrentPrice w (toUpperCase param) = (Inr pr, l4)"
    and "getFreeCashFlow w (toUpperCase param) = (Inr f, l5)"
    and "getBalanceSheetData w (toUpperCase param) = (Inr b, l6)"
    and "getSharesOutstanding w (toUpperCase param) = (Inr s, l7)"
  shows "stock_route w order param =
           (\<lparr> status = 200, success = True,
               data = Some (stock_data (toUpperCase param) c ex n pr f b s),
               error_body = None \<rparr>, l1 @ l2 @ l3 @ l4 @ l5 @ l6 @ l7)"
  using assms by (simp add: stock_route_def Let_def)




section \<open>Evaluation on the example worlds\<close>

lemma toUpperCase_tsm: "toUpperCase ''tsm'' = ''TSM''"
  by (simp add: toUpperCase_def upper_letters_def lower_letters_def)

lemma ticker_format_TSM: "ticker_format ''TSM''"
  by (simp add: ticker_format_def upper_letters_def)

lemma example_fetchHtml: "fetchHtml (example_world doc r) url = (Inr doc, [url])"
  by (simp add: fetchHtml_def example_world_def html_page_def)




section \<open>The format of the ticker\<close>












section \<open>Precedence of the exact label\<close>

lemma example_freeCashFlow:
  "freeCashFlow_of_rows (doc_rows example_document) = Some (Fin 870170)"
  by code_simp







section \<open>The reporting currency\<close>

lemma currency_keys:
  "map fst currencyPatterns = [''TWD'', ''CNY'', ''JPY'', ''EUR'', ''GBP'', ''HKD'']"
  by (simp add: currencyPatterns_def)

lemma find_Some_mem: "find P xs = Some x \<Longrightarrow> x \<in> set xs"
  by (induction xs) (auto split: if_splits)

lemma keyword_currency_key:
  assumes "keyword_currency text = Some c"
  shows "c \<in> set (map fst currencyPatterns)"
proof -
  from assms obtain ps where
    "find (\<lambda>(cname, patterns). list_ex (\<lambda>pattern. js_includes text pattern) patterns)
       currencyPatterns = Some (c, ps)"
    unfolding keyword_currency_def by (auto split: option.splits prod.splits)
  then have "(c, ps) \<in> set currencyPatterns"
    by (rule find_Some_mem)
  then show ?thesis
    by force
qed

lemma currency_of_document_cases:
  "currency_of_document doc = ''USD'' \<or>
   currency_of_document doc \<in> set (map fst currencyPatterns)"
  unfolding currency_of_document_def Let_def
  by (auto split: option.splits dest: keyword_currency_key)

lemma currency_of_document_codes:
  "currency_of_document doc \<in>
     set [''USD'', ''TWD'', ''CNY'', ''JPY'', ''EUR'', ''GBP'', ''HKD'']"
  using currency_of_document_cases [of doc] unfolding currency_keys by auto

lemma detectReportingCurrency_codes:
  "detectReportingCurrency w t = (Inr c, l) \<Longrightarrow>
     c \<in> set [''USD'', ''TWD'', ''CNY'', ''JPY'', ''EUR'', ''GBP'', ''HKD'']"
  using currency_of_document_codes
  by (auto simp: detectReportingCurrency_def Let_def split: prod.splits sum.splits)

lemma stock_route_data_currency:
  assumes "data (fst (stock_route w order param)) = Some sd"
  shows "\<exists>l. detectReportingCurrency w (toUpperCase param) = (Inr (reportingCurrency sd), l)"
  using assms
  by (auto simp add: stock_route_def Let_def handleError_fields invalid_ticker_response_def
        stock_data_def split: prod.splits sum.splits if_splits)

text \<open>
  C10. For every document the result of the currency detector is one of the seven codes
  USD, TWD, CNY, JPY, EUR, GBP, HKD: the keyword table has exactly the six other codes as
  its keys, and the override by the phrase \<open>financials in millions <CODE>\<close> applies only to a
  code of the table. So the detection of a fetched page yields one of the seven codes, and
  every snapshot that the endpoint returns carries one of them as its reporting currency.
\<close>

theorem reporting_currency_codes:
  "currency_of_document doc \<in>
     set [''USD'', ''TWD'', ''CNY'', ''JPY'', ''EUR'', ''GBP'', ''HKD''] \<and>
   map fst currencyPatterns = [''TWD'', ''CNY'', ''JPY'', ''EUR'', ''GBP'', ''HKD''] \<and>
   (fst (detectReportingCurrency w t) = Inr c \<longrightarrow>
      c \<in> set [''USD'', ''TWD'', ''CNY'', ''JPY'', ''EUR'', ''GBP'', ''HKD'']) \<and>
   (data (fst (stock_route w order param)) = Some sd \<longrightarrow>
      reportingCurrency sd \<in>
        set [''USD'', ''TWD'', ''CNY'', ''JPY'', ''EUR'', ''GBP'', ''HKD''])"
proof -
  have a: "c \<in> set [''USD'', ''TWD'', ''CNY'', ''JPY'', ''EUR'', ''GBP'', ''HKD'']"
    if "fst (detectReportingCurrency w t) = Inr c"
    using that detectReportingCurrency_codes [of w t c "snd (detectReportingCurrency w t)"]
    by (metis prod.collapse)
  have b: "reportingCurrency sd \<in>
      set [''USD'', ''TWD'', ''CNY'', ''JPY'', ''EUR'', ''GBP'', ''HKD'']"
    if "data (fst (stock_route w order param)) = Some sd"
    using stock_route_data_currency [OF that] detectReportingCurrency_codes by blast
  show ?thesis
    using currency_of_document_codes [of doc] currency_keys a b by blast
qed

lemma example_currency: "currency_of_document example_document = ''TWD''"
  by code_simp

lemma example_detect:
  "detectReportingCurrency (example_world example_document r) ''TSM'' =
     (Inr ''TWD'', [''https://stockanalysis.com/stocks/TSM/financials/''])"
  by (simp add: detectReportingCurrency_def example_fetchHtml example_currency Let_def)

lemma example_name:
  "name_of_document ''TSM'' example_document = Some ''Taiwan Semiconductor (TSM) Stock Price''"
  by code_simp

lemma example_getCompanyName:
  "getCompanyName (example_world example_document r) ''TSM'' =
     (Inr ''Taiwan Semiconductor (TSM) Stock Price'',
      [''https://stockanalysis.com/stocks/TSM/''])"
  by (simp add: getCompanyName_def example_fetchHtml example_name Let_def)

lemma example_getCurrentPrice:
  "getCurrentPrice (example_world example_document r) ''TSM'' =
     (Inr \<lparr> fr_value = Fin (381 / 2),
             formattedValue = formatNumberWithCommas (Some (Fin (381 / 2))),
             sourceUrl = ''https://finance.yahoo.com/quote/TSM'' \<rparr>,
      [''https://query1.finance.yahoo.com/v8/finance/chart/TSM''])"
  by (simp add: getCurrentPrice_def example_world_def truthy_def Let_def)

lemma example_getFreeCashFlow:
  "getFreeCashFlow (example_world example_document r) ''TSM'' =
     (Inr \<lparr> fr_value = Fin 870170,
             formattedValue = formatNumberWithCommas (Some (Fin 870170)),
             sourceUrl =
               ''https://stockanalysis.com/stocks/TSM/financials/cash-flow-statement/'' \<rparr>,
      [''https://stockanalysis.com/stocks/TSM/financials/cash-flow-statement/''])"
  by (simp add: getFreeCashFlow_def example_fetchHtml example_freeCashFlow Let_def)

lemma example_balance:
  "balance_of_rows (doc_rows example_document) = (Some (Fin 2127627), Some (Fin 958928))"
  by code_simp

lemma example_getBalanceSheetData:
  "getBalanceSheetData (example_world example_document r) ''TSM'' =
     (Inr \<lparr> bs_cashAndEquivalents = Fin 2127627,
             bs_formattedCashAndEquivalents = formatNumberWithCommas (Some (Fin 2127627)),
             bs_totalDebt = Fin 958928,
             bs_formattedTotalDebt = formatNumberWithCommas (Some (Fin 958928)),
             bs_sourceUrl =
               ''https://stockanalysis.com/stocks/TSM/financials/balance-sheet/?p=trailing'' \<rparr>,
      [''https://stockanalysis.com/stocks/TSM/financials/balance-sheet/?p=trailing''])"
  by (simp add: getBalanceSheetData_def example_fetchHtml example_balance Let_def)

lemma example_shares: "shares_of_document example_document = Some (Fin 25929)"
  by code_simp

lemma example_getSharesOutstanding:
  "getSharesOutstanding (example_world example_document r) ''TSM'' =
     (Inr \<lparr> fr_value = Fin 25929,
             formattedValue = formatNumberWithCommas (Some (Fin 25929)),
             sourceUrl = ''https://stockanalysis.com/stocks/TSM/financials/'' \<rparr>,
      [''https://stockanalysis.com/stocks/TSM/financials/''])"
  by (simp add: getSharesOutstanding_def example_fetchHtml example_shares Let_def)

text \<open>The answer of the endpoint on the example world, for a given answer of the rate
  resolver.\<close>

lemma example_route:
  assumes "getExchangeRate (example_world example_document r) ''TWD'' = (Inr ex, l2)"
  shows "fst (stock_route (example_world example_document r) order ''tsm'') =
     \<lparr> status = 200, success = True,
       data = Some (stock_data ''TSM'' ''TWD'' ex ''Taiwan Semiconductor (TSM) Stock Price''
         \<lparr> fr_value = Fin (381 / 2),
           formattedValue = formatNumberWithCommas (Some (Fin (381 / 2))),
           sourceUrl = ''https://finance.yahoo.com/quote/TSM'' \<rparr>
         \<lparr> fr_value = Fin 870170,
           formattedValue = formatNumberWithCommas (Some (Fin 870170)),
           sourceUrl =
             ''https://stockanalysis.com/stocks/TSM/financials/cash-flow-statement/'' \<rparr>
         \<lparr> bs_cashAndEquivalents = Fin 2127627,
           bs_formattedCashAndEquivalents = formatNumberWithCommas (Some (Fin 2127627)),
           bs_totalDebt = Fin 958928,
           bs_formattedTotalDebt = formatNumberWithCommas (Some (Fin 958928)),
           bs_sourceUrl =
             ''https://stockanalysis.com/stocks/TSM/financials/balance-sheet/?p=trailing'' \<rparr>
         \<lparr> fr_value = Fin 25929,
           formattedValue = formatNumberWithCommas (Some (Fin 25929)),
           sourceUrl = ''https://stockanalysis.com/stocks/TSM/financials/'' \<rparr>),
       error_body = None \<rparr>"
proof -
  have t: "ticker_format (toUpperCase ''tsm'')"
    by (simp add: toUpperCase_tsm ticker_format_TSM)
  show ?thesis
    using stock_route_ok [where param = "''tsm''" and order = order, OF t,
        unfolded toUpperCase_tsm, OF example_detect assms example_getCompanyName
        example_getCurrentPrice example_getFreeCashFlow example_getBalanceSheetData
        example_getSharesOutstanding]
    by simp
qed

lemma example_rate_failure:
  "getExchangeRate (example_world example_document RatesFailure) ''TWD'' =
     (Inr \<lparr> rate = 1, timestamp = ''2025-01-01T00:00:00.000Z'', fromCurrency = ''TWD'',
             toCurrency = ''USD'', rate_error = True \<rparr>,
      [''https://api.exchangerate-api.com/v4/latest/USD''])"
  by (simp add: getExchangeRate_def exchangeRate_try_def example_world_def rates_url_def)

theorem reporting_currency_codes_witness:
  "fst (detectReportingCurrency (example_world example_document RatesFailure) ''TSM'') =
     Inr ''TWD'' \<and>
   ''TWD'' \<in> set [''USD'', ''TWD'', ''CNY'', ''JPY'', ''EUR'', ''GBP'', ''HKD''] \<and>
   (\<exists>sd. data (fst (stock_route (example_world example_document RatesFailure) [0, 1, 2, 3, 4]
                      ''tsm'')) = Some sd \<and>
         reportingCurrency sd = ''TWD'' \<and>
         reportingCurrency sd \<in>
           set [''USD'', ''TWD'', ''CNY'', ''JPY'', ''EUR'', ''GBP'', ''HKD''])"
proof -
  let ?w = "example_world example_document RatesFailure"
  have a: "fst (detectReportingCurrency ?w ''TSM'') = Inr ''TWD''"
    by (simp add: example_detect)
  obtain sd where sd: "data (fst (stock_route ?w [0, 1, 2, 3, 4] ''tsm'')) = Some sd"
    and c: "reportingCurrency sd = ''TWD''"
    by (simp add: example_route [OF example_rate_failure] stock_data_def)
  from reporting_currency_codes [of example_document ?w "''TSM''" "''TWD''" "[0, 1, 2, 3, 4]"
      "''tsm''" sd] a sd c
  show ?thesis by auto
qed



















section \<open>The exchange rate\<close>

lemma getExchangeRate_USD:
  "getExchangeRate w ''USD'' =
     (Inr \<lparr> rate = Fin 1, timestamp = clock w, fromCurrency = ''USD'', toCurrency = ''USD'',
             rate_error = False \<rparr>, [])"
  by (simp add: getExchangeRate_def one_jsnum_def)

lemma getExchangeRate_failure:
  assumes "c \<noteq> ''USD''" and "feed_failure w"
  shows "getExchangeRate w c =
     (Inr \<lparr> rate = Fin 1, timestamp = clock w, fromCurrency = c, toCurrency = ''USD'',
             rate_error = True \<rparr>, [rates_url])"
  using assms
  by (auto simp: getExchangeRate_def exchangeRate_try_def feed_failure_def one_jsnum_def
           split: rates_outcome.splits option.splits)

lemma getExchangeRate_total: "\<exists>r. fst (getExchangeRate w c) = Inr r"
  by (simp add: getExchangeRate_def split: sum.splits)

lemma getExchangeRate_failure_rate:
  assumes "feed_failure w" and "getExchangeRate w c = (Inr ex, l)"
  shows "rate ex = Fin 1"
proof (cases "c = ''USD''")
  case True
  with assms(2) show ?thesis
    by (auto simp: getExchangeRate_USD)
next
  case False
  with assms show ?thesis
    by (auto simp: getExchangeRate_failure)
qed

lemma stock_route_data_rate:
  assumes "data (fst (stock_route w order param)) = Some sd"
  shows "\<exists>c l ex l2. detectReportingCurrency w (toUpperCase param) = (Inr c, l) \<and>
           getExchangeRate w c = (Inr ex, l2) \<and> exchangeRate sd = rate ex"
  using assms
  by (auto simp add: stock_route_def Let_def handleError_fields invalid_ticker_response_def
        stock_data_def split: prod.splits sum.splits if_splits)

text \<open>
  C6, as the specification states it, fails in its last part: the snapshot does not carry
  the flag. On this world the rate feed fails and the resolver returns rate 1 with the
  error flag; the endpoint succeeds, and its answer is the very answer it gives on the
  world whose feed works and quotes the rate 1, where the resolver sets no flag. The
  handler copies the rate into the snapshot and nothing else of the resolver's result.
\<close>

theorem rate_flag_counterexample:
  "getExchangeRate (example_world example_document RatesFailure) ''TWD'' =
     (Inr \<lparr> rate = Fin 1, timestamp = ''2025-01-01T00:00:00.000Z'', fromCurrency = ''TWD'',
             toCurrency = ''USD'', rate_error = True \<rparr>,
      [''https://api.exchangerate-api.com/v4/latest/USD'']) \<and>
   getExchangeRate (example_world example_document unit_rates) ''TWD'' =
     (Inr \<lparr> rate = Fin 1, timestamp = ''2025-01-01T00:00:00.000Z'', fromCurrency = ''TWD'',
             toCurrency = ''USD'', rate_error = False \<rparr>,
      [''https://api.exchangerate-api.com/v4/latest/USD'']) \<and>
   success (fst (stock_route (example_world example_document RatesFailure) [0, 1, 2, 3, 4]
                   ''tsm'')) \<and>
   fst (stock_route (example_world example_document RatesFailure) [0, 1, 2, 3, 4] ''tsm'') =
   fst (stock_route (example_world example_document unit_rates) [0, 1, 2, 3, 4] ''tsm'')"
proof -
  have a: "getExchangeRate (example_world example_document RatesFailure) ''TWD'' =
     (Inr \<lparr> rate = Fin 1, timestamp = ''2025-01-01T00:00:00.000Z'', fromCurrency = ''TWD'',
             toCurrency = ''USD'', rate_error = True \<rparr>,
      [''https://api.exchangerate-api.com/v4/latest/USD''])"
    by (simp add: example_rate_failure one_jsnum_def)
  have b: "getExchangeRate (example_world example_document unit_rates) ''TWD'' =
     (Inr \<lparr> rate = Fin 1, timestamp = ''2025-01-01T00:00:00.000Z'', fromCurrency = ''TWD'',
             toCurrency = ''USD'', rate_error = False \<rparr>,
      [''https://api.exchangerate-api.com/v4/latest/USD''])"
    by (simp add: getExchangeRate_def exchangeRate_try_def example_world_def unit_rates_def
          rates_url_def one_jsnum_def)
  have c: "success (fst (stock_route (example_world example_document RatesFailure)
      [0, 1, 2, 3, 4] ''tsm''))"
    by (simp add: example_route [OF a])
  have d: "fst (stock_route (example_world example_document RatesFailure) [0, 1, 2, 3, 4]
        ''tsm'') =
      fst (stock_route (example_world example_document unit_rates) [0, 1, 2, 3, 4] ''tsm'')"
    by (simp add: example_route [OF a] example_route [OF b] stock_data_def)
  show ?thesis
    using a b c d by blast
qed

text \<open>
  C6, amended. The exchange-rate resolver never fails its caller: for the currency USD it
  returns rate 1 with no network call; for every other currency, when the rate feed fails,
  it returns rate 1 with the flag \<open>error: true\<close> instead of propagating the failure. So the
  rate feed never aborts a request: the endpoint succeeds exactly when the ticker is well
  formed, the currency page is fetched and the five extractions succeed; and when the feed
  fails, every snapshot returned has \<open>exchangeRate == 1\<close>.
\<close>

theorem exchange_rate_soft_failure:
  "getExchangeRate w ''USD'' =
     (Inr \<lparr> rate = Fin 1, timestamp = clock w, fromCurrency = ''USD'', toCurrency = ''USD'',
             rate_error = False \<rparr>, []) \<and>
   (\<exists>r. fst (getExchangeRate w c) = Inr r) \<and>
   (c \<noteq> ''USD'' \<and> feed_failure w \<longrightarrow>
      getExchangeRate w c =
        (Inr \<lparr> rate = Fin 1, timestamp = clock w, fromCurrency = c, toCurrency = ''USD'',
                rate_error = True \<rparr>, [rates_url])) \<and>
   (success (fst (stock_route w order param)) \<longleftrightarrow>
      ticker_format (toUpperCase param) \<and>
      \<not> isl (fst (detectReportingCurrency w (toUpperCase param))) \<and>
      \<not> isl (fst (getCompanyName w (toUpperCase param))) \<and>
      \<not> isl (fst (getCurrentPrice w (toUpperCase param))) \<and>
      \<not> isl (fst (getFreeCashFlow w (toUpperCase param))) \<and>
      \<not> isl (fst (getBalanceSheetData w (toUpperCase param))) \<and>
      \<not> isl (fst (getSharesOutstanding w (toUpperCase param)))) \<and>
   (feed_failure w \<and> data (fst (stock_route w order param)) = Some sd \<longrightarrow>
      exchangeRate sd = Fin 1)"
proof -
  have snap: "exchangeRate sd = Fin 1"
    if "feed_failure w" "data (fst (stock_route w order param)) = Some sd"
    using stock_route_data_rate [OF that(2)] getExchangeRate_failure_rate [OF that(1)]
    by auto
  show ?thesis
    using getExchangeRate_USD [of w] getExchangeRate_total [of w c]
      getExchangeRate_failure [of c w] stock_route_success_iff [of w order param] snap
    by blast
qed

theorem exchange_rate_soft_failure_witness:
  "''TWD'' \<noteq> ''USD'' \<and>
   feed_failure (example_world example_document RatesFailure) \<and>
   getExchangeRate (example_world example_document RatesFailure) ''TWD'' =
     (Inr \<lparr> rate = Fin 1, timestamp = clock (example_world example_document RatesFailure),
             fromCurrency = ''TWD'', toCurrency = ''USD'', rate_error = True \<rparr>, [rates_url]) \<and>
   success (fst (stock_route (example_world example_document RatesFailure) [0, 1, 2, 3, 4]
                   ''tsm'')) \<and>
   (\<exists>sd. data (fst (stock_route (example_world example_document RatesFailure) [0, 1, 2, 3, 4]
                      ''tsm'')) = Some sd \<and>
         reportingCurrency sd = ''TWD'' \<and> exchangeRate sd = Fin 1)"
proof -
  let ?w = "example_world example_document RatesFailure"
  have a: "''TWD'' \<noteq> ''USD''" by simp
  have b: "feed_failure ?w"
    by (simp add: feed_failure_def example_world_def)
  have c: "success (fst (stock_route ?w [0, 1, 2, 3, 4] ''tsm''))"
    by (simp add: example_route [OF example_rate_failure])
  obtain sd where sd: "data (fst (stock_route ?w [0, 1, 2, 3, 4] ''tsm'')) = Some sd"
    and cur: "reportingCurrency sd = ''TWD''"
    by (simp add: example_route [OF example_rate_failure] stock_data_def)
  from exchange_rate_soft_failure [of ?w "''TWD''" "[0, 1, 2, 3, 4]" "''tsm''" sd] a b c sd cur
  show ?thesis by blast
qed

end
